theory Spec2Isabelle
  imports Main
begin

section \<open>Email-link authentication routes (routes/auth.js)\<close>

text \<open>
  The module exports one function, \<^verbatim>\<open>configure(app, server, options)\<close>, which reads its
  options and registers a middleware and five route handlers as closures over them.
  Each closure is embedded as a function of the options, of the user model handed in
  through \<^verbatim>\<open>options.db.models.user\<close>, of the state it reads (the user store, the
  session, \<^verbatim>\<open>res.locals\<close>) and of the request; it returns the state it leaves behind
  and what it answers. A JavaScript exception is a value of \<open>js_error\<close>.

  \<^verbatim>\<open>configure\<close> throws at start-up when no user model is given, so the handlers exist
  only with one. A handler sees the requests that the body parser, the session
  middleware and the CSRF middleware let through. The storage calls and the mail
  transport are asynchronous: a handler's synchronous part ends before any of their
  callbacks runs, and every call is taken to complete its callback.
\<close>

subsection \<open>Values\<close>

text \<open>
  A user id is whatever the store hands out: a number or a string. The handlers test
  \<^verbatim>\<open>req.session.user\<close> for truthiness, so the two falsy ids are kept apart.
\<close>

datatype ident = IdNum int | IdStr string

fun truthy_id :: "ident \<Rightarrow> bool" where
  "truthy_id (IdNum n) = (n \<noteq> 0)"
| "truthy_id (IdStr s) = (s \<noteq> [])"

text \<open>The argument of \<^verbatim>\<open>res.json\<close>: an object is the list of its keys and values, in order.\<close>

datatype jsval = JNull | JNum int | JStr string | JObj "(string \<times> jsval) list"

text \<open>
  A user record as the handlers read and write it. An unset \<open>name\<close> or \<open>token\<close> is
  \<open>None\<close> (JavaScript \<^verbatim>\<open>null\<close>).
\<close>

record user =
  user_id :: ident
  email :: string
  name :: "string option"
  token :: "string option"
  verified :: bool

text \<open>\<^verbatim>\<open>req.session\<close>: \<open>session_user = None\<close> is a session without a \<^verbatim>\<open>user\<close> property.\<close>

record session =
  session_user :: "ident option"

definition signed_in :: "session \<Rightarrow> bool" where
  \<comment> \<open>the test \<^verbatim>\<open>if (req.session.user)\<close>\<close>
  "signed_in sess = (case session_user sess of None \<Rightarrow> False | Some i \<Rightarrow> truthy_id i)"

text \<open>\<^verbatim>\<open>res.locals\<close>: the CSRF token put there by the CSRF middleware, and the user profile.\<close>

record locals =
  locals_csrf :: string
  locals_user :: "(string \<times> jsval) list option"

datatype response = Json "(string \<times> jsval) list" | Redirect string | Render string

text \<open>\<open>TypeError p\<close>: property \<open>p\<close> was read on \<^verbatim>\<open>undefined\<close>.\<close>

datatype js_error = TypeError string

datatype control = Next | Responded response | Thrown js_error

subsection \<open>Options\<close>

record options =
  opt_path :: "string option"
  opt_pages :: "string option"
  opt_clientMaxAge :: "int option"
  opt_serverUrl :: "string option"

definition path :: "options \<Rightarrow> string" where
  \<comment> \<open>\<^verbatim>\<open>options.path || '/auth'\<close>: the empty string is falsy\<close>
  "path opts = (case opt_path opts of None \<Rightarrow> ''/auth'' | Some p \<Rightarrow> if p = [] then ''/auth'' else p)"

definition pages :: "options \<Rightarrow> string" where
  \<comment> \<open>\<^verbatim>\<open>options.pages || 'auth'\<close>\<close>
  "pages opts = (case opt_pages opts of None \<Rightarrow> ''auth'' | Some p \<Rightarrow> if p = [] then ''auth'' else p)"

definition clientMaxAge :: "options \<Rightarrow> int" where
  \<comment> \<open>\<^verbatim>\<open>options.clientMaxAge || 60000\<close>: zero is falsy\<close>
  "clientMaxAge opts = (case opt_clientMaxAge opts of None \<Rightarrow> 60000 | Some n \<Rightarrow> if n = 0 then 60000 else n)"

definition serverUrl :: "options \<Rightarrow> string option" where
  \<comment> \<open>\<^verbatim>\<open>options.serverUrl || null\<close>\<close>
  "serverUrl opts = (case opt_serverUrl opts of None \<Rightarrow> None | Some s \<Rightarrow> if s = [] then None else Some s)"

definition default_options :: options where
  "default_options = \<lparr>opt_path = None, opt_pages = None, opt_clientMaxAge = None, opt_serverUrl = None\<rparr>"

subsection \<open>The user model\<close>

text \<open>
  \<^verbatim>\<open>const User = options.db.models.user\<close> is a parameter of \<^verbatim>\<open>configure\<close>. Its four
  operations complete through a callback \<^verbatim>\<open>function(err, user)\<close> or \<^verbatim>\<open>function(err)\<close>;
  here each is a function of the store \<open>'db\<close>. A lookup answers \<open>Inl err\<close> (the callback
  gets the error and no user), \<open>Inr None\<close> (no such record) or \<open>Inr (Some u)\<close>; a write
  answers the error it reports, if any, and the store it leaves.
\<close>

datatype storage_error = StorageError string

datatype user_filter = ByEmail string | ByToken string

record 'db user_model =
  um_get :: "'db \<Rightarrow> ident \<Rightarrow> storage_error + user option"
  um_one :: "'db \<Rightarrow> user_filter \<Rightarrow> storage_error + user option"
  um_create :: "'db \<Rightarrow> string \<Rightarrow> string \<Rightarrow> storage_error option \<times> 'db"
  um_save :: "'db \<Rightarrow> user \<Rightarrow> storage_error option \<times> 'db"

fun callback_user :: "storage_error + user option \<Rightarrow> user option" where
  \<comment> \<open>the \<^verbatim>\<open>user\<close> argument of the callback, \<open>None\<close> when it is falsy\<close>
  "callback_user (Inl err) = None"
| "callback_user (Inr r) = r"

subsection \<open>Session-user enrichment middleware (lines 83 to 97)\<close>

definition public_profile :: "user \<Rightarrow> (string \<times> jsval) list" where
  \<comment> \<open>the object \<^verbatim>\<open>{ name: user.name, email: user.email }\<close>, before it is serialised\<close>
  "public_profile u =
     [(''name'', (case name u of None \<Rightarrow> JNull | Some n \<Rightarrow> JStr n)), (''email'', JStr (email u))]"

definition enrich :: "'db user_model \<Rightarrow> 'db \<Rightarrow> session \<Rightarrow> locals \<Rightarrow> locals \<times> control" where
  "enrich User db sess loc =
     (case session_user sess of
        None \<Rightarrow> (loc, Next)
      | Some i \<Rightarrow>
          if \<not> truthy_id i then (loc, Next)
          else (case callback_user (um_get User db i) of
                  Some u \<Rightarrow> (loc\<lparr>locals_user := Some (public_profile u)\<rparr>, Next)
                | None \<Rightarrow> (loc, Next)))"

subsection \<open>GET path/csrf and GET path/session (lines 100 to 124)\<close>

definition csrf_route :: "locals \<Rightarrow> response" where
  "csrf_route loc = Json [(''csrfToken'', JStr (locals_csrf loc))]"

definition anonymous_info :: "options \<Rightarrow> locals \<Rightarrow> (string \<times> jsval) list" where
  "anonymous_info opts loc =
     [(''clientMaxAge'', JNum (clientMaxAge opts)), (''csrfToken'', JStr (locals_csrf loc))]"

text \<open>
  In the signed-in branch the callback reads \<^verbatim>\<open>user.name\<close> without testing \<^verbatim>\<open>user\<close>:
  with no user the read throws and nothing is answered.
\<close>

definition session_route ::
  "'db user_model \<Rightarrow> options \<Rightarrow> 'db \<Rightarrow> session \<Rightarrow> locals \<Rightarrow> js_error + response" where
  "session_route User opts db sess loc =
     (case session_user sess of
        None \<Rightarrow> Inr (Json (anonymous_info opts loc))
      | Some i \<Rightarrow>
          if \<not> truthy_id i then Inr (Json (anonymous_info opts loc))
          else (case callback_user (um_get User db i) of
                  None \<Rightarrow> Inl (TypeError ''name'')
                | Some u \<Rightarrow>
                    Inr (Json [(''user'', JObj (public_profile u)),
                               (''clientMaxAge'', JNum (clientMaxAge opts)),
                               (''csrfToken'', JStr (locals_csrf loc))])))"

subsection \<open>POST path/email/signin (lines 127 to 168)\<close>

record signin_request =
  body_email :: "string option"
  header_host :: "string option"

text \<open>
  \<^verbatim>\<open>String.prototype.trim\<close> on strings of code units below 256: the white space and line
  terminators there are 9 to 13, 32 and 160.
\<close>

definition js_whitespace :: "char \<Rightarrow> bool" where
  "js_whitespace c = (of_char c \<in> {9, 10, 11, 12, 13, 32, 160 :: nat})"

definition js_trim :: "string \<Rightarrow> string" where
  "js_trim s = rev (dropWhile js_whitespace (rev (dropWhile js_whitespace s)))"

definition blank_email :: "string option \<Rightarrow> bool" where
  \<comment> \<open>\<^verbatim>\<open>email = req.body.email || null\<close>, then \<^verbatim>\<open>!email || email.trim() == ''\<close>\<close>
  "blank_email b = (case b of None \<Rightarrow> True | Some e \<Rightarrow> e = [] \<or> js_trim e = [])"

definition verificationUrl :: "options \<Rightarrow> string option \<Rightarrow> string \<Rightarrow> string" where
  \<comment> \<open>string concatenation turns a missing host into the text \<^verbatim>\<open>undefined\<close>\<close>
  "verificationUrl opts host tok =
     (case serverUrl opts of
        Some s \<Rightarrow> s
      | None \<Rightarrow> ''http://'' @ (case host of None \<Rightarrow> ''undefined'' | Some h \<Rightarrow> h))
     @ path opts @ ''/email/signin/'' @ tok"

definition from_address :: "string option \<Rightarrow> js_error + string" where
  \<comment> \<open>\<^verbatim>\<open>"noreply@"+req.headers.host.split(":")[0]\<close>\<close>
  "from_address host =
     (case host of
        None \<Rightarrow> Inl (TypeError ''split'')
      | Some h \<Rightarrow> Inr (''noreply@'' @ takeWhile (\<lambda>c. c \<noteq> CHR '':'') h))"

text \<open>
  The callback of \<^verbatim>\<open>User.one({ email: email }, ...)\<close> (lines 138 to 149). The lookup's
  own error is not read. The result is the store afterwards and the error that the
  save or create callback rethrows (\<^verbatim>\<open>if (err) throw err\<close>).
\<close>

definition store_token ::
  "'db user_model \<Rightarrow> 'db \<Rightarrow> string \<Rightarrow> string \<Rightarrow> 'db \<times> storage_error option" where
  "store_token User db e tok =
     (case callback_user (um_one User db (ByEmail e)) of
        Some u \<Rightarrow> (case um_save User db (u\<lparr>token := Some tok\<rparr>) of (err, db') \<Rightarrow> (db', err))
      | None \<Rightarrow> (case um_create User db e tok of (err, db') \<Rightarrow> (db', err)))"

record mail =
  mail_to :: string
  mail_from :: string
  mail_subject :: string
  mail_text :: string

datatype mail_error = MailError string

datatype log_entry = Log string | LogError string mail_error

definition mail_failure_log :: "string \<Rightarrow> string \<Rightarrow> mail_error \<Rightarrow> log_entry list" where
  \<comment> \<open>the two \<^verbatim>\<open>console.log\<close> calls of the \<^verbatim>\<open>sendMail\<close> callback\<close>
  "mail_failure_log url e err =
     [Log (''Generated sign in link '' @ url @ '' for '' @ e),
      LogError (''Error sending email to '' @ e) err]"

record 'db signin_outcome =
  so_db :: 'db
  so_result :: "js_error + response"
  so_rethrown :: "storage_error option"
  so_mail :: "mail option"
  so_console :: "log_entry list"

text \<open>
  \<open>tok\<close> is the value of \<^verbatim>\<open>uuid()\<close>; \<open>sendMail\<close> is what the mail transport reports
  to its callback for a message. \<^verbatim>\<open>User.one\<close> is called before the message is built, so
  its callback runs whether or not building the message throws; the page is rendered at
  the end of the handler, before any callback runs.
\<close>

definition email_signin ::
  "'db user_model \<Rightarrow> options \<Rightarrow> (mail \<Rightarrow> mail_error option) \<Rightarrow> 'db \<Rightarrow> signin_request \<Rightarrow> string
     \<Rightarrow> 'db signin_outcome" where
  "email_signin User opts sendMail db rq tok =
     (if blank_email (body_email rq) then
        \<lparr>so_db = db, so_result = Inr (Render (pages opts @ ''/signin'')), so_rethrown = None,
         so_mail = None, so_console = []\<rparr>
      else
        (let e = (case body_email rq of None \<Rightarrow> [] | Some x \<Rightarrow> x);
             url = verificationUrl opts (header_host rq) tok;
             stored = store_token User db e tok
         in case from_address (header_host rq) of
              Inl err \<Rightarrow>
                \<lparr>so_db = fst stored, so_result = Inl err, so_rethrown = snd stored,
                 so_mail = None, so_console = []\<rparr>
            | Inr sender \<Rightarrow>
                (let msg = \<lparr>mail_to = e, mail_from = sender, mail_subject = ''Sign in link'',
                            mail_text = ''Use the link below to sign in:'' @ [CHR 10, CHR 10]
                                        @ url @ [CHR 10, CHR 10]\<rparr>
                 in \<lparr>so_db = fst stored,
                     so_result = Inr (Render (pages opts @ ''/check-email'')),
                     so_rethrown = snd stored,
                     so_mail = Some msg,
                     so_console = (case sendMail msg of None \<Rightarrow> []
                                   | Some err \<Rightarrow> mail_failure_log url e err)\<rparr>)))"

subsection \<open>GET path/email/signin/:token (lines 170 to 189)\<close>

record 'db redeem_outcome =
  ro_db :: 'db
  ro_session :: session
  ro_result :: response

text \<open>The argument of the save callback is not read (the rethrow is commented out).\<close>

definition signin_token ::
  "'db user_model \<Rightarrow> options \<Rightarrow> 'db \<Rightarrow> session \<Rightarrow> string option \<Rightarrow> 'db redeem_outcome" where
  "signin_token User opts db sess param =
     (case param of
        None \<Rightarrow> \<lparr>ro_db = db, ro_session = sess, ro_result = Redirect (path opts @ ''/signin'')\<rparr>
      | Some t \<Rightarrow>
          if t = [] then
            \<lparr>ro_db = db, ro_session = sess, ro_result = Redirect (path opts @ ''/signin'')\<rparr>
          else (case callback_user (um_one User db (ByToken t)) of
                  Some u \<Rightarrow>
                    \<lparr>ro_db = snd (um_save User db (u\<lparr>token := None, verified := True\<rparr>)),
                     ro_session = sess\<lparr>session_user := Some (user_id u)\<rparr>,
                     ro_result = Redirect (path opts @ ''/valid'')\<rparr>
                | None \<Rightarrow>
                    \<lparr>ro_db = db, ro_session = sess,
                     ro_result = Redirect (path opts @ ''/invalid'')\<rparr>))"

subsection \<open>POST path/signout (lines 191 to 196)\<close>

definition signout :: "session \<Rightarrow> session \<times> response" where
  "signout sess = ((if signed_in sess then sess\<lparr>session_user := None\<rparr> else sess), Redirect ''/'')"

subsection \<open>A reference user store\<close>

text \<open>
  Modelled from the spec: the user-record storage engine, which is not part of this
  module. The spec asks of it get-by-id, find-one-by-filter, create and save, each
  completed through a callback. Here the store is the list of its records; find-one
  answers the first match; save writes the record back under its id; create appends an
  unverified record under a fresh id. Each operation can be made to fail: it then
  reports an error and leaves the store as it was.
\<close>

record faults =
  get_fails :: bool
  one_fails :: bool
  create_fails :: bool
  save_fails :: bool

definition no_faults :: faults where
  "no_faults = \<lparr>get_fails = False, one_fails = False, create_fails = False, save_fails = False\<rparr>"

definition failing_save :: faults where
  "failing_save = \<lparr>get_fails = False, one_fails = False, create_fails = False, save_fails = True\<rparr>"

fun matches :: "user_filter \<Rightarrow> user \<Rightarrow> bool" where
  "matches (ByEmail e) u = (email u = e)"
| "matches (ByToken t) u = (token u = Some t)"

fun numeric_id :: "ident \<Rightarrow> int" where
  "numeric_id (IdNum n) = n"
| "numeric_id (IdStr s) = 0"

definition fresh_id :: "user list \<Rightarrow> ident" where
  "fresh_id db = IdNum (1 + foldr (\<lambda>u m. max (numeric_id (user_id u)) m) db 0)"

definition write_back :: "user \<Rightarrow> user list \<Rightarrow> user list" where
  "write_back u db = map (\<lambda>v. if user_id v = user_id u then u else v) db"

definition mem_get :: "faults \<Rightarrow> user list \<Rightarrow> ident \<Rightarrow> storage_error + user option" where
  "mem_get f db i =
     (if get_fails f then Inl (StorageError ''get'') else Inr (find (\<lambda>v. user_id v = i) db))"

definition mem_one :: "faults \<Rightarrow> user list \<Rightarrow> user_filter \<Rightarrow> storage_error + user option" where
  "mem_one f db flt =
     (if one_fails f then Inl (StorageError ''one'') else Inr (find (matches flt) db))"

definition mem_create ::
  "faults \<Rightarrow> user list \<Rightarrow> string \<Rightarrow> string \<Rightarrow> storage_error option \<times> user list" where
  "mem_create f db e tok =
     (if create_fails f then (Some (StorageError ''create''), db)
      else (None, db @ [\<lparr>user_id = fresh_id db, email = e, name = None, token = Some tok,
                         verified = False\<rparr>]))"

definition mem_save :: "faults \<Rightarrow> user list \<Rightarrow> user \<Rightarrow> storage_error option \<times> user list" where
  "mem_save f db u =
     (if save_fails f then (Some (StorageError ''save''), db) else (None, write_back u db))"

definition mem_User :: "faults \<Rightarrow> user list user_model" where
  "mem_User f = \<lparr>um_get = mem_get f, um_one = mem_one f, um_create = mem_create f, um_save = mem_save f\<rparr>"

text \<open>A token value is outstanding for at most one account of the store.\<close>

definition single_holder :: "user list \<Rightarrow> string \<Rightarrow> bool" where
  "single_holder db t = (length (remdups (map user_id (filter (matches (ByToken t)) db))) \<le> 1)"

text \<open>Mail transports: one that delivers, one that reports an error.\<close>

definition mail_ok :: "mail \<Rightarrow> mail_error option" where
  "mail_ok msg = None"

definition mail_down :: "mail \<Rightarrow> mail_error option" where
  "mail_down msg = Some (MailError ''ECONNREFUSED'')"

subsection \<open>Example data\<close>

definition alice :: user where
  "alice = \<lparr>user_id = IdNum 1, email = ''alice@example.com'', name = Some ''Alice'',
            token = Some ''T1'', verified = False\<rparr>"

definition anonymous :: session where
  "anonymous = \<lparr>session_user = None\<rparr>"

definition page_locals :: locals where
  "page_locals = \<lparr>locals_csrf = ''c5rf'', locals_user = None\<rparr>"

definition alice_request :: signin_request where
  "alice_request = \<lparr>body_email = Some ''alice@example.com'', header_host = Some ''example.com:3000''\<rparr>"

definition hostless_request :: signin_request where
  "hostless_request = \<lparr>body_email = Some ''alice@example.com'', header_host = None\<rparr>"

definition public_url_options :: options where
  "public_url_options = \<lparr>opt_path = None, opt_pages = None, opt_clientMaxAge = None,
                          opt_serverUrl = Some ''https://www.example.com''\<rparr>"

definition failing_lookup :: faults where
  "failing_lookup = \<lparr>get_fails = False, one_fails = True, create_fails = False, save_fails = False\<rparr>"

definition failing_store :: faults where
  "failing_store = \<lparr>get_fails = True, one_fails = True, create_fails = True, save_fails = True\<rparr>"

section \<open>Properties\<close>

subsection \<open>Unfolding the examples and the reference store\<close>

lemmas example_defs = alice_def anonymous_def page_locals_def alice_request_def
  hostless_request_def public_url_options_def default_options_def no_faults_def
  failing_save_def failing_lookup_def failing_store_def mail_ok_def mail_down_def

lemmas store_defs = mem_User_def mem_get_def mem_one_def mem_create_def mem_save_def
  write_back_def fresh_id_def

lemmas option_defs = path_def pages_def clientMaxAge_def serverUrl_def

subsection \<open>Facts about the reference store\<close>

lemma find_in_set: "find P xs = Some u \<Longrightarrow> u \<in> set xs \<and> P u"
  by (induction xs) (auto split: if_splits)

lemma find_exists: "x \<in> set xs \<Longrightarrow> P x \<Longrightarrow> find P xs \<noteq> None"
  by (auto simp: find_None_iff)

lemma find_write_back:
  "u \<in> set db \<Longrightarrow> user_id u' = user_id u \<Longrightarrow>
     find (\<lambda>v. user_id v = user_id u) (write_back u' db) = Some u'"
  by (induction db) (auto simp: write_back_def)

lemma single_holder_ids:
  assumes "single_holder db t" "v \<in> set db" "w \<in> set db" "token v = Some t" "token w = Some t"
  shows "user_id v = user_id w"
proof -
  let ?ids = "map user_id (filter (matches (ByToken t)) db)"
  have "card (set ?ids) \<le> 1"
    using assms(1) by (simp add: single_holder_def length_remdups_card_conv)
  moreover have "user_id v \<in> set ?ids" "user_id w \<in> set ?ids"
    using assms(2-5) by auto
  ultimately show ?thesis
    by (metis card_le_Suc0_iff_eq List.finite_set One_nat_def)
qed

lemma token_gone_after_write_back:
  assumes "single_holder db t" "u \<in> set db" "token u = Some t"
    and "user_id u' = user_id u" "token u' \<noteq> Some t"
  shows "find (matches (ByToken t)) (write_back u' db) = None"
proof -
  have "\<not> matches (ByToken t) x" if "x \<in> set (write_back u' db)" for x
  proof -
    from that obtain v where v: "v \<in> set db" "x = (if user_id v = user_id u' then u' else v)"
      by (auto simp: write_back_def)
    show ?thesis
    proof (cases "user_id v = user_id u'")
      case True
      then show ?thesis using v assms(5) by simp
    next
      case False
      then have "token v \<noteq> Some t"
        using single_holder_ids [OF assms(1) v(1) assms(2) _ assms(3)] assms(4) by auto
      then show ?thesis using v False by simp
    qed
  qed
  then show ?thesis by (simp add: find_None_iff)
qed

lemma trim_alice: "js_trim ''alice@example.com'' = ''alice@example.com''"
  by (simp add: js_trim_def js_whitespace_def)

lemma find_email_after_write_back:
  assumes "u \<in> set db" and "email u = e"
  shows "find (\<lambda>v. email v = e \<and> token v = Some tok) (write_back (u\<lparr>token := Some tok\<rparr>) db) \<noteq> None"
proof -
  have "(\<lambda>v. if user_id v = user_id u then u\<lparr>token := Some tok\<rparr> else v) u
          \<in> set (write_back (u\<lparr>token := Some tok\<rparr>) db)"
    unfolding write_back_def using assms(1) by (simp del: if_cancel if_True)
  then have "u\<lparr>token := Some tok\<rparr> \<in> set (write_back (u\<lparr>token := Some tok\<rparr>) db)"
    by simp
  then show ?thesis
    using assms(2) by (intro find_exists [of "u\<lparr>token := Some tok\<rparr>"]) simp_all
qed

lemma not_blank: "body_email rq = Some e \<Longrightarrow> js_trim e \<noteq> [] \<Longrightarrow> \<not> blank_email (body_email rq)"
  by (auto simp: blank_email_def js_trim_def)

subsection \<open>Token redemption\<close>

text \<open>
  C1, as amended. A redemption request for which the lookup delivers a user record \<open>u\<close>
  binds the session to \<open>u\<close>'s id and redirects to \<open>path/valid\<close>. The handler saves \<open>u\<close>
  with the token cleared and \<open>verified\<close> set: when the save reports no error, the store is
  the old one with that record written back, and the record found under \<open>u\<close>'s id is that
  one. (A route parameter is never empty; what a failing save leaves is C8.)
\<close>

theorem redeem_valid_token:
  assumes "t \<noteq> []"
    and "um_one (mem_User f) db (ByToken t) = Inr (Some u)"
  shows "ro_session (signin_token (mem_User f) opts db sess (Some t))
           = sess\<lparr>session_user := Some (user_id u)\<rparr>
       \<and> ro_result (signin_token (mem_User f) opts db sess (Some t))
           = Redirect (path opts @ ''/valid'')
       \<and> (\<not> save_fails f \<longrightarrow>
            ro_db (signin_token (mem_User f) opts db sess (Some t))
              = write_back (u\<lparr>token := None, verified := True\<rparr>) db
          \<and> find (\<lambda>v. user_id v = user_id u)
                (ro_db (signin_token (mem_User f) opts db sess (Some t)))
              = Some (u\<lparr>token := None, verified := True\<rparr>))"
proof -
  from assms(2) have "find (matches (ByToken t)) db = Some u"
    by (simp add: mem_User_def mem_one_def split: if_splits)
  then have "u \<in> set db" by (simp add: find_in_set)
  then have "find (\<lambda>v. user_id v = user_id u) (write_back (u\<lparr>token := None, verified := True\<rparr>) db)
               = Some (u\<lparr>token := None, verified := True\<rparr>)"
    by (simp add: find_write_back)
  then show ?thesis
    using assms by (simp add: signin_token_def mem_User_def mem_save_def)
qed

text \<open>Alice redeems her token \<open>T1\<close> on a store that works.\<close>

theorem redeem_valid_token_witness:
  "um_one (mem_User no_faults) [alice] (ByToken ''T1'') = Inr (Some alice)
   \<and> \<not> save_fails no_faults
   \<and> signin_token (mem_User no_faults) default_options [alice] anonymous (Some ''T1'')
       = \<lparr>ro_db = [alice\<lparr>token := None, verified := True\<rparr>],
          ro_session = \<lparr>session_user = Some (IdNum 1)\<rparr>,
          ro_result = Redirect ''/auth/valid''\<rparr>
   \<and> find (\<lambda>v. user_id v = IdNum 1)
         (ro_db (signin_token (mem_User no_faults) default_options [alice] anonymous (Some ''T1'')))
       = Some (alice\<lparr>token := None, verified := True\<rparr>)"
proof -
  have h1: "''T1'' \<noteq> []" by simp
  have h2: "um_one (mem_User no_faults) [alice] (ByToken ''T1'') = Inr (Some alice)"
    by (simp add: store_defs example_defs)
  have h3: "\<not> save_fails no_faults" by (simp add: no_faults_def)
  have id: "user_id alice = IdNum 1" by (simp add: alice_def)
  show ?thesis
    using h2 h3 redeem_valid_token [OF h1 h2, of default_options anonymous]
    unfolding id
    by (simp add: store_defs example_defs option_defs signin_token_def)
qed

text \<open>
  C1 as stated fails: a stored token that matches is not enough. When the save reports
  an error the handler still binds the session and redirects to \<open>/auth/valid\<close>, but the
  stored record keeps its token and stays unverified; and when the lookup reports an
  error the handler redirects to \<open>/auth/invalid\<close> and binds nothing.
\<close>

theorem redeem_store_failure_counterexample:
  "find (matches (ByToken ''T1'')) [alice] = Some alice
   \<and> signin_token (mem_User failing_save) default_options [alice] anonymous (Some ''T1'')
       = \<lparr>ro_db = [alice], ro_session = \<lparr>session_user = Some (IdNum 1)\<rparr>,
          ro_result = Redirect ''/auth/valid''\<rparr>
   \<and> token alice = Some ''T1''
   \<and> \<not> verified alice
   \<and> signin_token (mem_User failing_lookup) default_options [alice] anonymous (Some ''T1'')
       = \<lparr>ro_db = [alice], ro_session = anonymous, ro_result = Redirect ''/auth/invalid''\<rparr>"
  by (simp add: signin_token_def store_defs example_defs option_defs)

text \<open>
  C2, as amended. After a redemption that redirected to \<open>path/valid\<close> and whose save
  reported no error, of a token value outstanding for one account only, every further
  redemption request with the same value redirects to \<open>path/invalid\<close> and changes
  neither the store nor the session, whatever the store does on that request.
\<close>

theorem replay_is_invalid:
  assumes "ro_result (signin_token (mem_User f1) opts db s1 (Some t)) = Redirect (path opts @ ''/valid'')"
    and "\<not> save_fails f1"
    and "single_holder db t"
  shows "signin_token (mem_User f2) opts (ro_db (signin_token (mem_User f1) opts db s1 (Some t))) s2 (Some t)
           = \<lparr>ro_db = ro_db (signin_token (mem_User f1) opts db s1 (Some t)),
              ro_session = s2,
              ro_result = Redirect (path opts @ ''/invalid'')\<rparr>"
proof -
  from assms(1) have t: "t \<noteq> []"
    by (auto simp: signin_token_def split: if_splits)
  from assms(1) t obtain u where u: "callback_user (um_one (mem_User f1) db (ByToken t)) = Some u"
    by (auto simp: signin_token_def split: option.splits)
  then have "find (matches (ByToken t)) db = Some u"
    by (simp add: mem_User_def mem_one_def split: if_splits)
  then have mem: "u \<in> set db" "token u = Some t"
    using find_in_set [of "matches (ByToken t)" db u] by auto
  have db1: "ro_db (signin_token (mem_User f1) opts db s1 (Some t))
               = write_back (u\<lparr>token := None, verified := True\<rparr>) db"
    using u t assms(2) by (simp add: signin_token_def mem_User_def mem_save_def)
  have "find (matches (ByToken t)) (write_back (u\<lparr>token := None, verified := True\<rparr>) db) = None"
    using token_gone_after_write_back [OF assms(3) mem] by simp
  then have "callback_user (um_one (mem_User f2) (write_back (u\<lparr>token := None, verified := True\<rparr>) db) (ByToken t)) = None"
    by (simp add: mem_User_def mem_one_def)
  then show ?thesis
    using t unfolding db1 by (simp add: signin_token_def)
qed

text \<open>Alice redeems \<open>T1\<close>, then the same link is opened again.\<close>

theorem replay_is_invalid_witness:
  "ro_result (signin_token (mem_User no_faults) default_options [alice] anonymous (Some ''T1''))
     = Redirect (path default_options @ ''/valid'')
   \<and> \<not> save_fails no_faults
   \<and> single_holder [alice] ''T1''
   \<and> signin_token (mem_User no_faults) default_options
         (ro_db (signin_token (mem_User no_faults) default_options [alice] anonymous (Some ''T1'')))
         anonymous (Some ''T1'')
       = \<lparr>ro_db = [alice\<lparr>token := None, verified := True\<rparr>],
          ro_session = anonymous,
          ro_result = Redirect ''/auth/invalid''\<rparr>"
proof -
  have h1: "ro_result (signin_token (mem_User no_faults) default_options [alice] anonymous (Some ''T1''))
              = Redirect (path default_options @ ''/valid'')"
    by (simp add: signin_token_def store_defs example_defs)
  have h2: "\<not> save_fails no_faults" by (simp add: no_faults_def)
  have h3: "single_holder [alice] ''T1''" by (simp add: single_holder_def alice_def)
  have db: "ro_db (signin_token (mem_User no_faults) default_options [alice] anonymous (Some ''T1''))
              = [alice\<lparr>token := None, verified := True\<rparr>]"
    by (simp add: signin_token_def store_defs example_defs)
  show ?thesis
    using h1 h2 h3 db replay_is_invalid [OF h1 h2 h3, of no_faults anonymous]
    by (simp add: option_defs default_options_def)
qed

text \<open>
  C2 as stated fails: when the save of the first redemption reports an error, the
  handler still redirects to \<open>/auth/valid\<close>, the store keeps the token, and the same
  link redirects to \<open>/auth/valid\<close> a second time.
\<close>

theorem replay_after_failed_save_counterexample:
  "ro_result (signin_token (mem_User failing_save) default_options [alice] anonymous (Some ''T1''))
     = Redirect ''/auth/valid''
   \<and> ro_result (signin_token (mem_User no_faults) default_options
         (ro_db (signin_token (mem_User failing_save) default_options [alice] anonymous (Some ''T1'')))
         anonymous (Some ''T1''))
     = Redirect ''/auth/valid''"
  by (simp add: signin_token_def store_defs example_defs option_defs)

text \<open>
  C8. When the lookup finds a user record, the outcome of the handler does not depend on
  what the save reports: with a save that reports an error the session is still bound
  to the user's id and the answer is still the redirect to \<open>path/valid\<close>; the store is
  whatever the failed save left.
\<close>

theorem save_error_ignored:
  assumes "t \<noteq> []"
    and "um_one User db (ByToken t) = Inr (Some u)"
    and "fst (um_save User db (u\<lparr>token := None, verified := True\<rparr>)) = Some err"
  shows "signin_token User opts db sess (Some t)
           = \<lparr>ro_db = snd (um_save User db (u\<lparr>token := None, verified := True\<rparr>)),
              ro_session = sess\<lparr>session_user := Some (user_id u)\<rparr>,
              ro_result = Redirect (path opts @ ''/valid'')\<rparr>"
  using assms(1,2) by (simp add: signin_token_def)

text \<open>
  On a store whose save fails, Alice's token stays in the store and she is signed in.
\<close>

theorem save_error_ignored_witness:
  "um_one (mem_User failing_save) [alice] (ByToken ''T1'') = Inr (Some alice)
   \<and> fst (um_save (mem_User failing_save) [alice] (alice\<lparr>token := None, verified := True\<rparr>))
       = Some (StorageError ''save'')
   \<and> signin_token (mem_User failing_save) default_options [alice] anonymous (Some ''T1'')
       = \<lparr>ro_db = [alice], ro_session = \<lparr>session_user = Some (IdNum 1)\<rparr>,
          ro_result = Redirect ''/auth/valid''\<rparr>"
proof -
  have h1: "''T1'' \<noteq> []" by simp
  have h2: "um_one (mem_User failing_save) [alice] (ByToken ''T1'') = Inr (Some alice)"
    by (simp add: store_defs failing_save_def alice_def)
  have h3: "fst (um_save (mem_User failing_save) [alice] (alice\<lparr>token := None, verified := True\<rparr>))
              = Some (StorageError ''save'')"
    by (simp add: store_defs failing_save_def)
  have kept: "snd (um_save (mem_User failing_save) [alice] (alice\<lparr>token := None, verified := True\<rparr>))
                = [alice]"
    by (simp add: store_defs failing_save_def)
  show ?thesis
    using h2 h3 save_error_ignored [OF h1 h2 h3, of default_options anonymous]
    unfolding kept
    by (simp add: path_def default_options_def anonymous_def alice_def)
qed

subsection \<open>Token issuance\<close>

text \<open>
  C3, as amended. For a request with a non-blank email and a Host header the check-email
  page is rendered; and when the storage calls report no error, the store afterwards is
  the old one with the token written over the first record of that address, or, if there
  is none, with a new unverified record of that address and token appended. Either way
  a record with that email and that (non-null) token exists.
\<close>

theorem email_signin_stores_token:
  assumes "body_email rq = Some e" and "js_trim e \<noteq> []" and "header_host rq = Some h"
  shows "so_result (email_signin (mem_User f) opts sendMail db rq tok)
           = Inr (Render (pages opts @ ''/check-email''))
       \<and> (\<not> one_fails f \<and> \<not> save_fails f \<and> \<not> create_fails f \<longrightarrow>
            so_db (email_signin (mem_User f) opts sendMail db rq tok)
              = (case find (matches (ByEmail e)) db of
                   Some u \<Rightarrow> write_back (u\<lparr>token := Some tok\<rparr>) db
                 | None \<Rightarrow> db @ [\<lparr>user_id = fresh_id db, email = e, name = None,
                                   token = Some tok, verified = False\<rparr>])
          \<and> find (\<lambda>v. email v = e \<and> token v = Some tok)
                (so_db (email_signin (mem_User f) opts sendMail db rq tok)) \<noteq> None)"
proof (intro conjI impI)
  have nb: "\<not> blank_email (body_email rq)"
    using assms(1,2) by (rule not_blank)
  show "so_result (email_signin (mem_User f) opts sendMail db rq tok)
          = Inr (Render (pages opts @ ''/check-email''))"
    using nb assms(1,3) by (simp add: email_signin_def from_address_def Let_def)
  have db: "so_db (email_signin (mem_User f) opts sendMail db rq tok)
              = fst (store_token (mem_User f) db e tok)"
    using nb assms(1,3) by (simp add: email_signin_def from_address_def Let_def)
  assume ok: "\<not> one_fails f \<and> \<not> save_fails f \<and> \<not> create_fails f"
  then have st: "fst (store_token (mem_User f) db e tok)
              = (case find (matches (ByEmail e)) db of
                   Some u \<Rightarrow> write_back (u\<lparr>token := Some tok\<rparr>) db
                 | None \<Rightarrow> db @ [\<lparr>user_id = fresh_id db, email = e, name = None,
                                   token = Some tok, verified = False\<rparr>])"
    by (simp add: store_token_def mem_User_def mem_one_def mem_save_def mem_create_def
        split: option.splits)
  show "so_db (email_signin (mem_User f) opts sendMail db rq tok)
          = (case find (matches (ByEmail e)) db of
               Some u \<Rightarrow> write_back (u\<lparr>token := Some tok\<rparr>) db
             | None \<Rightarrow> db @ [\<lparr>user_id = fresh_id db, email = e, name = None,
                               token = Some tok, verified = False\<rparr>])"
    using db st by simp
  have "find (\<lambda>v. email v = e \<and> token v = Some tok) (fst (store_token (mem_User f) db e tok)) \<noteq> None"
  proof (cases "find (matches (ByEmail e)) db")
    case None
    then have "fst (store_token (mem_User f) db e tok)
                 = db @ [\<lparr>user_id = fresh_id db, email = e, name = None, token = Some tok,
                           verified = False\<rparr>]"
      using st by simp
    then show ?thesis
      by (intro find_exists [of "\<lparr>user_id = fresh_id db, email = e, name = None,
                                  token = Some tok, verified = False\<rparr>"]) simp_all
  next
    case (Some u)
    then have "u \<in> set db" "email u = e"
      using find_in_set [of "matches (ByEmail e)" db u] by auto
    then show ?thesis unfolding st using Some by (simp add: find_email_after_write_back)
  qed
  then show "find (\<lambda>v. email v = e \<and> token v = Some tok)
               (so_db (email_signin (mem_User f) opts sendMail db rq tok)) \<noteq> None"
    using db by simp
qed

text \<open>The address is known (Alice's token \<open>T1\<close> is replaced by \<open>T2\<close>), or the store is empty.\<close>

theorem email_signin_stores_token_witness:
  "body_email alice_request = Some ''alice@example.com''
   \<and> js_trim ''alice@example.com'' \<noteq> []
   \<and> header_host alice_request = Some ''example.com:3000''
   \<and> \<not> one_fails no_faults \<and> \<not> save_fails no_faults \<and> \<not> create_fails no_faults
   \<and> so_result (email_signin (mem_User no_faults) default_options mail_ok [alice] alice_request ''T2'')
       = Inr (Render ''auth/check-email'')
   \<and> so_db (email_signin (mem_User no_faults) default_options mail_ok [alice] alice_request ''T2'')
       = [alice\<lparr>token := Some ''T2''\<rparr>]
   \<and> so_result (email_signin (mem_User no_faults) default_options mail_ok [] alice_request ''T2'')
       = Inr (Render ''auth/check-email'')
   \<and> so_db (email_signin (mem_User no_faults) default_options mail_ok [] alice_request ''T2'')
       = [\<lparr>user_id = IdNum 1, email = ''alice@example.com'', name = None, token = Some ''T2'',
           verified = False\<rparr>]"
proof -
  have h1: "body_email alice_request = Some ''alice@example.com''"
    by (simp add: alice_request_def)
  have h2: "js_trim ''alice@example.com'' \<noteq> []"
    by (simp add: trim_alice)
  have h3: "header_host alice_request = Some ''example.com:3000''"
    by (simp add: alice_request_def)
  have h4: "\<not> one_fails no_faults" and h5: "\<not> save_fails no_faults"
    and h6: "\<not> create_fails no_faults"
    by (simp_all add: no_faults_def)
  have known: "find (matches (ByEmail ''alice@example.com'')) [alice] = Some alice"
    by (simp add: alice_def)
  have new: "find (matches (ByEmail ''alice@example.com'')) [] = None"
    by simp
  show ?thesis
    using h1 h2 h3 h4 h5 h6
      email_signin_stores_token [OF h1 h2 h3, of no_faults default_options mail_ok "[alice]" "''T2''"]
      email_signin_stores_token [OF h1 h2 h3, of no_faults default_options mail_ok "[]" "''T2''"]
    unfolding known new
    by (simp add: pages_def default_options_def write_back_def fresh_id_def)
qed

text \<open>
  C3 as stated fails: a request with a non-blank email and no Host header gets no page,
  the handler throws on \<^verbatim>\<open>req.headers.host.split\<close>, here with a store that works and with
  \<^verbatim>\<open>serverUrl\<close> configured.
\<close>

theorem hostless_signin_counterexample:
  "\<not> blank_email (body_email hostless_request)
   \<and> so_result (email_signin (mem_User no_faults) public_url_options mail_ok [alice] hostless_request ''T2'')
       = Inl (TypeError ''split'')
   \<and> so_result (email_signin (mem_User no_faults) public_url_options mail_ok [alice] hostless_request ''T2'')
       \<noteq> Inr (Render (pages public_url_options @ ''/check-email''))"
  by (simp add: email_signin_def blank_email_def hostless_request_def trim_alice from_address_def
      Let_def)




text \<open>
  C10, as amended. For a request with a non-blank email and no Host header the handler
  throws on \<^verbatim>\<open>req.headers.host.split\<close>, whatever \<^verbatim>\<open>serverUrl\<close> is: no page is rendered,
  no mail is handed over, nothing is logged. The verification URL has been computed by
  then without an exception (with the text \<^verbatim>\<open>undefined\<close> for the host when \<^verbatim>\<open>serverUrl\<close>
  is unset), and the user lookup has been started, so the token is stored all the same.
\<close>

theorem email_signin_without_host:
  assumes "body_email rq = Some e" and "js_trim e \<noteq> []" and "header_host rq = None"
  shows "email_signin User opts sendMail db rq tok
           = \<lparr>so_db = fst (store_token User db e tok),
              so_result = Inl (TypeError ''split''),
              so_rethrown = snd (store_token User db e tok),
              so_mail = None, so_console = []\<rparr>
       \<and> verificationUrl opts (header_host rq) tok
           = (case serverUrl opts of Some s \<Rightarrow> s | None \<Rightarrow> ''http://undefined'')
             @ path opts @ ''/email/signin/'' @ tok"
proof -
  have nb: "\<not> blank_email (body_email rq)"
    using assms(1,2) by (rule not_blank)
  show ?thesis
    using nb assms(1,3)
    by (simp add: email_signin_def from_address_def verificationUrl_def Let_def split: option.splits)
qed

text \<open>No Host header, \<^verbatim>\<open>serverUrl\<close> configured.\<close>

theorem email_signin_without_host_witness:
  "body_email hostless_request = Some ''alice@example.com''
   \<and> js_trim ''alice@example.com'' \<noteq> []
   \<and> header_host hostless_request = None
   \<and> serverUrl public_url_options = Some ''https://www.example.com''
   \<and> email_signin (mem_User no_faults) public_url_options mail_ok [alice] hostless_request ''T2''
       = \<lparr>so_db = [alice\<lparr>token := Some ''T2''\<rparr>], so_result = Inl (TypeError ''split''),
          so_rethrown = None, so_mail = None, so_console = []\<rparr>
   \<and> verificationUrl public_url_options (header_host hostless_request) ''T2''
       = ''https://www.example.com/auth/email/signin/T2''"
proof -
  have h1: "body_email hostless_request = Some ''alice@example.com''"
    by (simp add: hostless_request_def)
  have h2: "js_trim ''alice@example.com'' \<noteq> []" by (simp add: trim_alice)
  have h3: "header_host hostless_request = None" by (simp add: hostless_request_def)
  have url: "serverUrl public_url_options = Some ''https://www.example.com''"
    by (simp add: serverUrl_def public_url_options_def)
  have stored: "store_token (mem_User no_faults) [alice] ''alice@example.com'' ''T2''
                  = ([alice\<lparr>token := Some ''T2''\<rparr>], None)"
    by (simp add: store_token_def store_defs no_faults_def alice_def)
  show ?thesis
    using h1 h2 h3 url
      email_signin_without_host [OF h1 h2 h3, of "mem_User no_faults" public_url_options mail_ok
        "[alice]" "''T2''"]
    unfolding stored
    by (simp add: path_def public_url_options_def)
qed

text \<open>
  C10 as stated fails in its parenthesis: with \<^verbatim>\<open>serverUrl\<close> unset and no Host header,
  computing the verification URL does not throw. It yields
  \<^verbatim>\<open>http://undefined/auth/email/signin/T1\<close>, the handler goes on to the user lookup (the
  record is created), and only then throws on the from address.
\<close>

theorem verification_url_without_host_counterexample:
  "serverUrl default_options = None
   \<and> verificationUrl default_options (header_host hostless_request) ''T1''
       = ''http://undefined/auth/email/signin/T1''
   \<and> email_signin (mem_User no_faults) default_options mail_ok [] hostless_request ''T1''
       = \<lparr>so_db = [\<lparr>user_id = IdNum 1, email = ''alice@example.com'', name = None,
                    token = Some ''T1'', verified = False\<rparr>],
          so_result = Inl (TypeError ''split''), so_rethrown = None, so_mail = None,
          so_console = []\<rparr>"
  by (simp add: email_signin_def blank_email_def hostless_request_def trim_alice from_address_def
      Let_def verificationUrl_def option_defs default_options_def store_token_def store_defs
      no_faults_def)

subsection \<open>Session information, sign-out and the enrichment middleware\<close>

text \<open>
  C5, as amended. A session without a user reference is answered the object with
  exactly the keys \<^verbatim>\<open>clientMaxAge\<close> and \<^verbatim>\<open>csrfToken\<close>. A signed-in session whose user the store returns is
  answered that object preceded by \<^verbatim>\<open>user\<close>, whose value has exactly the keys \<^verbatim>\<open>name\<close>
  and \<^verbatim>\<open>email\<close>. And whatever the session and the store: an answer has one of these two
  shapes, or there is no answer (C9), so no other field of the user is ever sent.
\<close>

theorem session_route_shape:
  "(session_user sess = None \<longrightarrow>
      session_route User opts db sess loc
        = Inr (Json [(''clientMaxAge'', JNum (clientMaxAge opts)),
                     (''csrfToken'', JStr (locals_csrf loc))]))
   \<and> (session_user sess = Some i \<and> truthy_id i \<and> um_get User db i = Inr (Some u) \<longrightarrow>
      session_route User opts db sess loc
        = Inr (Json [(''user'', JObj [(''name'', (case name u of None \<Rightarrow> JNull | Some n \<Rightarrow> JStr n)),
                                      (''email'', JStr (email u))]),
                     (''clientMaxAge'', JNum (clientMaxAge opts)),
                     (''csrfToken'', JStr (locals_csrf loc))]))
   \<and> (session_route User opts db sess loc
         = Inr (Json [(''clientMaxAge'', JNum (clientMaxAge opts)),
                      (''csrfToken'', JStr (locals_csrf loc))])
      \<or> (\<exists>v :: user. session_route User opts db sess loc
            = Inr (Json [(''user'', JObj [(''name'', (case name v of None \<Rightarrow> JNull | Some n \<Rightarrow> JStr n)),
                                          (''email'', JStr (email v))]),
                         (''clientMaxAge'', JNum (clientMaxAge opts)),
                         (''csrfToken'', JStr (locals_csrf loc))]))
      \<or> session_route User opts db sess loc = Inl (TypeError ''name''))"
proof (intro conjI impI)
  assume "session_user sess = None"
  then show "session_route User opts db sess loc
               = Inr (Json [(''clientMaxAge'', JNum (clientMaxAge opts)),
                            (''csrfToken'', JStr (locals_csrf loc))])"
    by (simp add: session_route_def anonymous_info_def)
next
  assume "session_user sess = Some i \<and> truthy_id i \<and> um_get User db i = Inr (Some u)"
  then show "session_route User opts db sess loc
        = Inr (Json [(''user'', JObj [(''name'', (case name u of None \<Rightarrow> JNull | Some n \<Rightarrow> JStr n)),
                                      (''email'', JStr (email u))]),
                     (''clientMaxAge'', JNum (clientMaxAge opts)),
                     (''csrfToken'', JStr (locals_csrf loc))])"
    by (simp add: session_route_def public_profile_def)
next
  show "session_route User opts db sess loc
         = Inr (Json [(''clientMaxAge'', JNum (clientMaxAge opts)),
                      (''csrfToken'', JStr (locals_csrf loc))])
      \<or> (\<exists>v :: user. session_route User opts db sess loc
            = Inr (Json [(''user'', JObj [(''name'', (case name v of None \<Rightarrow> JNull | Some n \<Rightarrow> JStr n)),
                                          (''email'', JStr (email v))]),
                         (''clientMaxAge'', JNum (clientMaxAge opts)),
                         (''csrfToken'', JStr (locals_csrf loc))]))
      \<or> session_route User opts db sess loc = Inl (TypeError ''name'')"
  proof (cases "session_user sess")
    case None
    then show ?thesis by (simp add: session_route_def anonymous_info_def)
  next
    case (Some j)
    show ?thesis
    proof (cases "truthy_id j")
      case False
      with Some show ?thesis by (simp add: session_route_def anonymous_info_def)
    next
      case True
      show ?thesis
      proof (cases "callback_user (um_get User db j)")
        case None
        with Some True show ?thesis by (simp add: session_route_def)
      next
        case (Some v)
        with \<open>session_user sess = Some j\<close> True
        have "session_route User opts db sess loc
            = Inr (Json [(''user'', JObj [(''name'', (case name v of None \<Rightarrow> JNull | Some n \<Rightarrow> JStr n)),
                                          (''email'', JStr (email v))]),
                         (''clientMaxAge'', JNum (clientMaxAge opts)),
                         (''csrfToken'', JStr (locals_csrf loc))])"
          by (simp add: session_route_def public_profile_def)
        then show ?thesis by blast
      qed
    qed
  qed
qed

text \<open>An anonymous session, and Alice's session.\<close>

theorem session_route_shape_witness:
  "session_user anonymous = None
   \<and> session_route (mem_User no_faults) default_options [alice] anonymous page_locals
       = Inr (Json [(''clientMaxAge'', JNum 60000), (''csrfToken'', JStr ''c5rf'')])
   \<and> truthy_id (IdNum 1)
   \<and> um_get (mem_User no_faults) [alice] (IdNum 1) = Inr (Some alice)
   \<and> session_route (mem_User no_faults) default_options [alice] \<lparr>session_user = Some (IdNum 1)\<rparr> page_locals
       = Inr (Json [(''user'', JObj [(''name'', JStr ''Alice''), (''email'', JStr ''alice@example.com'')]),
                    (''clientMaxAge'', JNum 60000), (''csrfToken'', JStr ''c5rf'')])"
proof -
  have a: "session_user anonymous = None" by (simp add: anonymous_def)
  have t: "truthy_id (IdNum 1)" by simp
  have b: "um_get (mem_User no_faults) [alice] (IdNum 1) = Inr (Some alice)"
    by (simp add: store_defs no_faults_def alice_def)
  have s: "session_user \<lparr>session_user = Some (IdNum 1)\<rparr> = Some (IdNum 1)" by simp
  have 1: "session_route (mem_User no_faults) default_options [alice] anonymous page_locals
       = Inr (Json [(''clientMaxAge'', JNum 60000), (''csrfToken'', JStr ''c5rf'')])"
    using a session_route_shape [where sess = anonymous and User = "mem_User no_faults"
        and db = "[alice]" and opts = default_options and loc = page_locals, THEN conjunct1]
    by (simp add: clientMaxAge_def default_options_def page_locals_def)
  have 2: "session_route (mem_User no_faults) default_options [alice] \<lparr>session_user = Some (IdNum 1)\<rparr> page_locals
       = Inr (Json [(''user'', JObj [(''name'', JStr ''Alice''), (''email'', JStr ''alice@example.com'')]),
                    (''clientMaxAge'', JNum 60000), (''csrfToken'', JStr ''c5rf'')])"
    using s t b session_route_shape [where sess = "\<lparr>session_user = Some (IdNum 1)\<rparr>"
        and i = "IdNum 1" and User = "mem_User no_faults" and db = "[alice]" and u = alice
        and opts = default_options and loc = page_locals, THEN conjunct2, THEN conjunct1]
    unfolding clientMaxAge_def default_options_def page_locals_def
    by (simp add: alice_def)
  show ?thesis using a t b 1 2 by simp
qed

text \<open>
  C5 as stated fails: a signed-in session does not always get JSON. When the account
  the session points to is gone from the store, the handler reads \<^verbatim>\<open>user.name\<close> on an
  undefined user and answers nothing.
\<close>

theorem deleted_account_session_counterexample:
  "signed_in \<lparr>session_user = Some (IdNum 1)\<rparr>
   \<and> um_get (mem_User no_faults) [] (IdNum 1) = Inr None
   \<and> session_route (mem_User no_faults) default_options [] \<lparr>session_user = Some (IdNum 1)\<rparr> page_locals
       = Inl (TypeError ''name'')"
  by (simp add: signed_in_def session_route_def store_defs no_faults_def)

text \<open>
  C9. On a session that carries a user id for which \<^verbatim>\<open>User.get\<close> reports an error or
  returns no record, the handler reads \<^verbatim>\<open>name\<close> on an undefined user: it throws and
  answers nothing.
\<close>

theorem session_route_not_total:
  assumes "session_user sess = Some i" and "truthy_id i"
    and "isl (um_get User db i) \<or> um_get User db i = Inr None"
  shows "session_route User opts db sess loc = Inl (TypeError ''name'')"
  using assms by (cases "um_get User db i") (auto simp: session_route_def)

text \<open>A session for an account that is gone from the store, and a store whose get fails.\<close>

theorem session_route_not_total_witness:
  "truthy_id (IdNum 2)
   \<and> um_get (mem_User no_faults) [alice] (IdNum 2) = Inr None
   \<and> session_route (mem_User no_faults) default_options [alice] \<lparr>session_user = Some (IdNum 2)\<rparr> page_locals
       = Inl (TypeError ''name'')
   \<and> truthy_id (IdNum 1)
   \<and> isl (um_get (mem_User failing_store) [alice] (IdNum 1))
   \<and> session_route (mem_User failing_store) default_options [alice] \<lparr>session_user = Some (IdNum 1)\<rparr> page_locals
       = Inl (TypeError ''name'')"
proof -
  have s: "session_user \<lparr>session_user = Some j\<rparr> = Some j" for j by simp
  have t1: "truthy_id (IdNum 1)" and t2: "truthy_id (IdNum 2)" by simp_all
  have gone: "um_get (mem_User no_faults) [alice] (IdNum 2) = Inr None"
    by (simp add: store_defs no_faults_def alice_def)
  have down: "isl (um_get (mem_User failing_store) [alice] (IdNum 1))"
    by (simp add: store_defs failing_store_def)
  show ?thesis
    using t1 t2 gone down
      session_route_not_total [OF s t2 disjI2, OF gone, of default_options page_locals]
      session_route_not_total [OF s t1 disjI1, OF down, of default_options page_locals]
    by simp
qed

text \<open>
  C6. Sign-out always redirects to \<^verbatim>\<open>/\<close> and leaves a session that no handler takes for
  signed in: the user reference of a signed-in session is deleted, and a session that
  was not signed in is left as it was.
\<close>

theorem signout_clears_session:
  "snd (signout sess) = Redirect ''/''
   \<and> \<not> signed_in (fst (signout sess))
   \<and> (signed_in sess \<longrightarrow> session_user (fst (signout sess)) = None)
   \<and> (\<not> signed_in sess \<longrightarrow> fst (signout sess) = sess)"
  by (simp add: signout_def signed_in_def)

text \<open>Alice signs out; an anonymous session signs out.\<close>

theorem signout_clears_session_witness:
  "signed_in \<lparr>session_user = Some (IdNum 1)\<rparr>
   \<and> session_user (fst (signout \<lparr>session_user = Some (IdNum 1)\<rparr>)) = None
   \<and> snd (signout \<lparr>session_user = Some (IdNum 1)\<rparr>) = Redirect ''/''
   \<and> \<not> signed_in anonymous
   \<and> fst (signout anonymous) = anonymous
   \<and> snd (signout anonymous) = Redirect ''/''"
proof -
  have a: "signed_in \<lparr>session_user = Some (IdNum 1)\<rparr>" by (simp add: signed_in_def)
  have b: "\<not> signed_in anonymous" by (simp add: signed_in_def anonymous_def)
  show ?thesis
    using a b signout_clears_session [of "\<lparr>session_user = Some (IdNum 1)\<rparr>"]
      signout_clears_session [of anonymous]
    by simp
qed

text \<open>
  C7. The middleware always ends in \<^verbatim>\<open>next()\<close>, whatever the session holds and the store
  answers. When the session has no user reference, or the fetch reports an error or
  returns no record, \<^verbatim>\<open>res.locals\<close> is left as it was.
\<close>

theorem enrich_never_blocks:
  "snd (enrich User db sess loc) = Next
   \<and> (session_user sess = None \<longrightarrow> fst (enrich User db sess loc) = loc)
   \<and> (session_user sess = Some i \<and> (isl (um_get User db i) \<or> um_get User db i = Inr None)
        \<longrightarrow> fst (enrich User db sess loc) = loc)"
  by (cases "um_get User db i") (auto simp: enrich_def split: option.splits)

text \<open>An anonymous session, a store whose get fails, and an account that is gone.\<close>

theorem enrich_never_blocks_witness:
  "session_user anonymous = None
   \<and> enrich (mem_User no_faults) [alice] anonymous page_locals = (page_locals, Next)
   \<and> isl (um_get (mem_User failing_store) [alice] (IdNum 1))
   \<and> enrich (mem_User failing_store) [alice] \<lparr>session_user = Some (IdNum 1)\<rparr> page_locals
       = (page_locals, Next)
   \<and> um_get (mem_User no_faults) [alice] (IdNum 2) = Inr None
   \<and> enrich (mem_User no_faults) [alice] \<lparr>session_user = Some (IdNum 2)\<rparr> page_locals
       = (page_locals, Next)"
proof -
  have a: "session_user anonymous = None" by (simp add: anonymous_def)
  have b: "isl (um_get (mem_User failing_store) [alice] (IdNum 1))"
    by (simp add: store_defs failing_store_def)
  have c: "um_get (mem_User no_faults) [alice] (IdNum 2) = Inr None"
    by (simp add: store_defs no_faults_def alice_def)
  have p: "r = (fst r, snd r)" for r :: "locals \<times> control" by simp
  have 1: "enrich (mem_User no_faults) [alice] anonymous page_locals = (page_locals, Next)"
    using a enrich_never_blocks [of "mem_User no_faults" "[alice]" anonymous page_locals]
      p [of "enrich (mem_User no_faults) [alice] anonymous page_locals"]
    by simp
  have 2: "enrich (mem_User failing_store) [alice] \<lparr>session_user = Some (IdNum 1)\<rparr> page_locals
             = (page_locals, Next)"
    using b enrich_never_blocks [of "mem_User failing_store" "[alice]"
        "\<lparr>session_user = Some (IdNum 1)\<rparr>" page_locals "IdNum 1"]
      p [of "enrich (mem_User failing_store) [alice] \<lparr>session_user = Some (IdNum 1)\<rparr> page_locals"]
    by simp
  have 3: "enrich (mem_User no_faults) [alice] \<lparr>session_user = Some (IdNum 2)\<rparr> page_locals
             = (page_locals, Next)"
    using c enrich_never_blocks [of "mem_User no_faults" "[alice]"
        "\<lparr>session_user = Some (IdNum 2)\<rparr>" page_locals "IdNum 2"]
      p [of "enrich (mem_User no_faults) [alice] \<lparr>session_user = Some (IdNum 2)\<rparr> page_locals"]
    by simp
  show ?thesis using a b c 1 2 3 by simp
qed

end
